theory Spec2Isabelle
  imports Complex_Main
begin

section \<open>Data model\<close>

text \<open>
  The Go sources compute on \<open>float64\<close>. The embedding takes a finite \<open>float64\<close> as the
  real number it denotes and every arithmetic operation as exact (no rounding, no
  overflow). The one place where the source divides by a value that its own inputs can
  make zero without a guard, the pinbar ratios, is modelled with the IEEE-754 results of
  such a division (infinities and NaN) written out; see \<open>fdiv\<close>.

  Period parameters are Go \<open>int\<close>s. Every caller in the repository passes a positive
  literal (20, 50, 100, 200; 5, 3, 3; 50, 100, 9). The embedding takes them as \<open>nat\<close>;
  a period of 0 (where Go divides by zero and yields NaN) is outside the embedding, and
  every theorem that depends on a division by a period assumes the period positive.
\<close>

text \<open>\<open>models.Candle\<close>: one candlestick. \<open>Date\<close> is a \<open>time.Time\<close>, taken as an ordinal.\<close>

record Candle =
  Date :: nat
  Open :: real
  High :: real
  Low :: real
  Close :: real
  Volume :: int

text \<open>Go slicing \<open>xs[a:b]\<close>.\<close>

definition slice :: "'a list \<Rightarrow> nat \<Rightarrow> nat \<Rightarrow> 'a list" where
  "slice xs a b = take (b - a) (drop a xs)"

section \<open>Indicators: EMA (internal/indicators/ema.go)\<close>

text \<open>
  \<open>EMACalculator.Calculate\<close>. The two \<open>for\<close> loops run over the index ranges
  \<open>[0, period)\<close> and \<open>[period, len(prices))\<close>; each is a left fold over its range whose
  step is the loop body.
\<close>

definition Calculate_ema :: "real list \<Rightarrow> nat \<Rightarrow> real" where
  "Calculate_ema prices period =
     (if length prices < period then 0
      else
        let multiplier = 2 / (real period + 1);
            sum = foldl (\<lambda>sum i. sum + prices ! i) 0 [0..<period];
            ema = sum / real period
        in foldl (\<lambda>ema i. (prices ! i * multiplier) + (ema * (1 - multiplier)))
                 ema [period..<length prices])"

definition ValidateTrend :: "real list \<Rightarrow> bool" where
  "ValidateTrend prices =
     (let ema20 = Calculate_ema prices 20;
          ema50 = Calculate_ema prices 50;
          ema100 = Calculate_ema prices 100;
          ema200 = Calculate_ema prices 200
      in ema20 > ema50 \<and> ema50 > ema100 \<and> ema100 > ema200)"

definition ValidateDowntrend :: "real list \<Rightarrow> bool" where
  "ValidateDowntrend prices =
     (let ema20 = Calculate_ema prices 20;
          ema50 = Calculate_ema prices 50;
          ema100 = Calculate_ema prices 100;
          ema200 = Calculate_ema prices 200
      in ema20 < ema50 \<and> ema50 < ema100 \<and> ema100 < ema200)"

text \<open>
  The EMA as the specification words it: the seed is the arithmetic mean of the first
  \<open>period\<close> prices, and \<open>ema_recurrence prices period k\<close> is the value after the
  recurrence has been applied at the indices \<open>period, \<dots>, period + k - 1\<close>, with
  \<open>\<alpha> = 2 / (period + 1)\<close>.
\<close>

definition ema_alpha :: "nat \<Rightarrow> real" where
  "ema_alpha period = 2 / (real period + 1)"

definition ema_seed :: "real list \<Rightarrow> nat \<Rightarrow> real" where
  "ema_seed prices period = sum_list (take period prices) / real period"

primrec ema_recurrence :: "real list \<Rightarrow> nat \<Rightarrow> nat \<Rightarrow> real" where
  "ema_recurrence prices period 0 = ema_seed prices period"
| "ema_recurrence prices period (Suc k) =
     prices ! (period + k) * ema_alpha period
       + ema_recurrence prices period k * (1 - ema_alpha period)"

section \<open>Indicators: RSI\<close>

text \<open>
  \<open>RSICalculator.Calculate\<close>. The first loop appends one gain and one loss per index
  \<open>i = 1, \<dots>, len(prices) - 1\<close>; the two averaging loops update \<open>avgGain\<close> and
  \<open>avgLoss\<close> together, so their state is the pair.
\<close>

definition rsi_gains :: "real list \<Rightarrow> real list" where
  "rsi_gains prices =
     map (\<lambda>i. let change = prices ! i - prices ! (i - 1)
              in if change > 0 then change else 0) [1..<length prices]"

definition rsi_losses :: "real list \<Rightarrow> real list" where
  "rsi_losses prices =
     map (\<lambda>i. let change = prices ! i - prices ! (i - 1)
              in if change > 0 then 0 else - change) [1..<length prices]"

definition Calculate_rsi :: "real list \<Rightarrow> nat \<Rightarrow> real" where
  "Calculate_rsi prices period =
     (if length prices < period + 1 then 0
      else
        let gains = rsi_gains prices;
            losses = rsi_losses prices
        in if length gains < period then 0
           else
             let (sumGain, sumLoss) =
                   foldl (\<lambda>(avgGain, avgLoss) i. (avgGain + gains ! i, avgLoss + losses ! i))
                         (0, 0) [0..<period];
                 seed = (sumGain / real period, sumLoss / real period);
                 (avgGain, avgLoss) =
                   foldl (\<lambda>(avgGain, avgLoss) i.
                            ((avgGain * real (period - 1) + gains ! i) / real period,
                             (avgLoss * real (period - 1) + losses ! i) / real period))
                         seed [period..<length gains]
             in if avgLoss = 0 then 100
                else
                  let rs = avgGain / avgLoss
                  in 100 - (100 / (1 + rs)))"

section \<open>Indicators: Stochastic RSI\<close>

record StochasticRSIResult =
  K :: real
  D :: real
  Crossover :: bool

text \<open>The zero value \<open>StochasticRSIResult{}\<close>.\<close>

definition StochasticRSIResult_zero :: StochasticRSIResult where
  "StochasticRSIResult_zero = \<lparr>K = 0, D = 0, Crossover = False\<rparr>"

text \<open>The RSI trajectory: one RSI per index \<open>i = rsiPeriod, \<dots>, len(prices) - 1\<close>, each on
  the window \<open>prices[i-rsiPeriod : i+1]\<close>.\<close>

definition stoch_rsiValues :: "real list \<Rightarrow> nat \<Rightarrow> real list" where
  "stoch_rsiValues prices rsiPeriod =
     map (\<lambda>i. Calculate_rsi (slice prices (i - rsiPeriod) (i + 1)) rsiPeriod)
         [rsiPeriod..<length prices]"

text \<open>
  The body of the \<open>%K\<close> loop at index \<open>i\<close>. \<open>periodStart = i - stochKPeriod + 1\<close>, set to
  0 when negative; the inner loop runs over \<open>j = periodStart, \<dots>, i\<close> and keeps the
  highest and the lowest RSI seen.
\<close>

definition stochK_window :: "real list \<Rightarrow> nat \<Rightarrow> nat \<Rightarrow> real \<times> real" where
  "stochK_window rsiValues stochKPeriod i =
     (let periodStart = (if int i - int stochKPeriod + 1 < 0 then 0
                         else nat (int i - int stochKPeriod + 1))
      in foldl (\<lambda>(highestRSI, lowestRSI) j.
                  (if rsiValues ! j > highestRSI then rsiValues ! j else highestRSI,
                   if rsiValues ! j < lowestRSI then rsiValues ! j else lowestRSI))
               (rsiValues ! periodStart, rsiValues ! periodStart)
               [periodStart..<i + 1])"

definition stochK_at :: "real list \<Rightarrow> nat \<Rightarrow> nat \<Rightarrow> real" where
  "stochK_at rsiValues stochKPeriod i =
     (let (highestRSI, lowestRSI) = stochK_window rsiValues stochKPeriod i;
          currentRSI = rsiValues ! i
      in if highestRSI = lowestRSI then 50
         else ((currentRSI - lowestRSI) / (highestRSI - lowestRSI)) * 100)"

definition stochKValues :: "real list \<Rightarrow> nat \<Rightarrow> real list" where
  "stochKValues rsiValues stochKPeriod =
     map (stochK_at rsiValues stochKPeriod) [stochKPeriod - 1..<length rsiValues]"

definition Calculate_stoch :: "real list \<Rightarrow> nat \<Rightarrow> nat \<Rightarrow> nat \<Rightarrow> StochasticRSIResult" where
  "Calculate_stoch prices rsiPeriod stochKPeriod stochDPeriod =
     (if length prices < rsiPeriod + stochKPeriod + stochDPeriod then StochasticRSIResult_zero
      else
        let rsiValues = stoch_rsiValues prices rsiPeriod
        in if length rsiValues < stochKPeriod + stochDPeriod then StochasticRSIResult_zero
           else
             let ks = stochKValues rsiValues stochKPeriod
             in if length ks < stochDPeriod then StochasticRSIResult_zero
                else
                  let currentK = ks ! (length ks - 1);
                      sum = foldl (\<lambda>sum i. sum + ks ! i) 0
                                  [length ks - stochDPeriod..<length ks];
                      currentD = sum / real stochDPeriod;
                      crossover =
                        (if length ks \<ge> 2 then
                           let prevK = ks ! (length ks - 2);
                               prevD =
                                 (if length ks \<ge> stochDPeriod + 1 then
                                    foldl (\<lambda>sum i. sum + ks ! i) 0
                                          [length ks - stochDPeriod - 1..<length ks - 1]
                                      / real stochDPeriod
                                  else 0)
                           in prevK < prevD \<and> currentK > currentD \<and> prevK < 30
                         else False)
                  in \<lparr>K = currentK, D = currentD, Crossover = crossover\<rparr>)"

definition IsOversoldWithCrossover :: "real list \<Rightarrow> nat \<Rightarrow> nat \<Rightarrow> nat \<Rightarrow> bool" where
  "IsOversoldWithCrossover prices rsiPeriod stochKPeriod stochDPeriod =
     (let result = Calculate_stoch prices rsiPeriod stochKPeriod stochDPeriod
      in K result < 30 \<and> Crossover result)"

definition IsOverboughtWithCrossover :: "real list \<Rightarrow> nat \<Rightarrow> nat \<Rightarrow> nat \<Rightarrow> bool" where
  "IsOverboughtWithCrossover prices rsiPeriod stochKPeriod stochDPeriod =
     (let result = Calculate_stoch prices rsiPeriod stochKPeriod stochDPeriod
      in K result > 70 \<and> Crossover result)"

section \<open>Indicators: MACD (internal/indicators/macd.go)\<close>

record MACDResult =
  MACD :: real
  Signal :: real
  Histogram :: real

definition MACDResult_zero :: MACDResult where
  "MACDResult_zero = \<lparr>MACD = 0, Signal = 0, Histogram = 0\<rparr>"

definition Calculate_macd :: "real list \<Rightarrow> nat \<Rightarrow> nat \<Rightarrow> nat \<Rightarrow> MACDResult" where
  "Calculate_macd prices fastPeriod slowPeriod signalPeriod =
     (if length prices < slowPeriod then MACDResult_zero
      else
        let emaFast = Calculate_ema prices fastPeriod;
            emaSlow = Calculate_ema prices slowPeriod;
            macd = emaFast - emaSlow;
            macdValues =
              map (\<lambda>i. let fastEMA = Calculate_ema (slice prices 0 (i + 1)) fastPeriod;
                           slowEMA = Calculate_ema (slice prices 0 (i + 1)) slowPeriod
                       in fastEMA - slowEMA)
                  [slowPeriod..<length prices];
            signal = (if length macdValues \<ge> signalPeriod
                      then Calculate_ema macdValues signalPeriod
                      else macd * (9 / 10));
            histogram = macd - signal
        in \<lparr>MACD = macd, Signal = signal, Histogram = histogram\<rparr>)"

definition IsBullMarket :: "real list \<Rightarrow> nat \<Rightarrow> nat \<Rightarrow> nat \<Rightarrow> bool" where
  "IsBullMarket prices fastPeriod slowPeriod signalPeriod =
     (let result = Calculate_macd prices fastPeriod slowPeriod signalPeriod
      in MACD result > Signal result)"

text \<open>
  The duration loop of \<open>IsBearMarketAcceptable\<close>:
  \<open>for j := len(prices) - 1; j >= 0 && bearishCount < 6; j--\<close>. The state is \<open>j\<close> and
  \<open>bearishCount\<close>; the result is the count when the loop is left, by its condition or by
  one of its two \<open>break\<close>s.
\<close>

function bearishLoop :: "real list \<Rightarrow> nat \<Rightarrow> nat \<Rightarrow> nat \<Rightarrow> int \<Rightarrow> nat \<Rightarrow> nat" where
  "bearishLoop prices fastPeriod slowPeriod signalPeriod j bearishCount =
     (if j \<ge> 0 \<and> bearishCount < 6 then
        if j < 1 then bearishCount
        else
          let subCloses = slice prices 0 (nat (j + 1))
          in if length subCloses \<ge> slowPeriod then
               let subResult = Calculate_macd subCloses fastPeriod slowPeriod signalPeriod
               in if MACD subResult \<le> Signal subResult
                  then bearishLoop prices fastPeriod slowPeriod signalPeriod (j - 1)
                                   (bearishCount + 1)
                  else bearishCount
             else bearishLoop prices fastPeriod slowPeriod signalPeriod (j - 1) bearishCount
      else bearishCount)"
  by pat_completeness auto
termination
  by (relation "measure (\<lambda>(prices, fastPeriod, slowPeriod, signalPeriod, j, bearishCount). nat (j + 1))")
     auto

declare bearishLoop.simps [simp del]

definition IsBearMarketAcceptable :: "real list \<Rightarrow> nat \<Rightarrow> nat \<Rightarrow> nat \<Rightarrow> bool" where
  "IsBearMarketAcceptable prices fastPeriod slowPeriod signalPeriod =
     (let result = Calculate_macd prices fastPeriod slowPeriod signalPeriod
      in if MACD result > Signal result then True
         else
           let bearishCount =
                 bearishLoop prices fastPeriod slowPeriod signalPeriod
                             (int (length prices) - 1) 0
           in bearishCount \<le> 5)"

function bullishLoop :: "real list \<Rightarrow> nat \<Rightarrow> nat \<Rightarrow> nat \<Rightarrow> int \<Rightarrow> nat \<Rightarrow> nat" where
  "bullishLoop prices fastPeriod slowPeriod signalPeriod j bullishCount =
     (if j \<ge> 0 \<and> bullishCount < 6 then
        if j < 1 then bullishCount
        else
          let subCloses = slice prices 0 (nat (j + 1))
          in if length subCloses \<ge> slowPeriod then
               let subResult = Calculate_macd subCloses fastPeriod slowPeriod signalPeriod
               in if MACD subResult \<ge> Signal subResult
                  then bullishLoop prices fastPeriod slowPeriod signalPeriod (j - 1)
                                   (bullishCount + 1)
                  else bullishCount
             else bullishLoop prices fastPeriod slowPeriod signalPeriod (j - 1) bullishCount
      else bullishCount)"
  by pat_completeness auto
termination
  by (relation "measure (\<lambda>(prices, fastPeriod, slowPeriod, signalPeriod, j, bullishCount). nat (j + 1))")
     auto

declare bullishLoop.simps [simp del]

definition IsBullMarketAcceptable :: "real list \<Rightarrow> nat \<Rightarrow> nat \<Rightarrow> nat \<Rightarrow> bool" where
  "IsBullMarketAcceptable prices fastPeriod slowPeriod signalPeriod =
     (let result = Calculate_macd prices fastPeriod slowPeriod signalPeriod
      in if MACD result < Signal result then True
         else
           let bullishCount =
                 bullishLoop prices fastPeriod slowPeriod signalPeriod
                             (int (length prices) - 1) 0
           in bullishCount \<le> 5)"

section \<open>Pattern detection (internal/strategy/candlestick.go)\<close>

datatype PatternType =
    NoPattern
  | Long2CandlestickReversal
  | Short2CandlestickReversal
  | LongPinbarReversal
  | ShortPinbarReversal

text \<open>The package's own helpers \<open>abs\<close>, \<open>min\<close> and \<open>max\<close>.\<close>

definition abs_f :: "real \<Rightarrow> real" where
  "abs_f x = (if x < 0 then - x else x)"

definition min_f :: "real \<Rightarrow> real \<Rightarrow> real" where
  "min_f a b = (if a < b then a else b)"

definition max_f :: "real \<Rightarrow> real \<Rightarrow> real" where
  "max_f a b = (if a > b then a else b)"

text \<open>
  The quotient of two finite \<open>float64\<close> values. Go does not panic on a floating-point
  division by zero: IEEE-754 gives \<open>+Inf\<close> or \<open>-Inf\<close> for a non-zero dividend (the
  divisor \<open>High - Low\<close> of two equal values is \<open>+0\<close>) and NaN for \<open>0 / 0\<close>. A comparison
  with NaN is false.
\<close>

datatype quotient = Finite real | PosInf | NegInf | NaN

definition fdiv :: "real \<Rightarrow> real \<Rightarrow> quotient" where
  "fdiv a b =
     (if b \<noteq> 0 then Finite (a / b)
      else if a > 0 then PosInf
      else if a < 0 then NegInf
      else NaN)"

fun quotient_gt :: "quotient \<Rightarrow> real \<Rightarrow> bool" where
  "quotient_gt (Finite x) y = (x > y)"
| "quotient_gt PosInf y = True"
| "quotient_gt NegInf y = False"
| "quotient_gt NaN y = False"

fun quotient_ge :: "quotient \<Rightarrow> real \<Rightarrow> bool" where
  "quotient_ge (Finite x) y = (x \<ge> y)"
| "quotient_ge PosInf y = True"
| "quotient_ge NegInf y = False"
| "quotient_ge NaN y = False"

definition getLowestEMA :: "real \<Rightarrow> real \<Rightarrow> real \<Rightarrow> real \<Rightarrow> real" where
  "getLowestEMA ema20 ema50 ema100 ema200 =
     (let emaSupport = ema20;
          emaSupport = (if ema50 < emaSupport then ema50 else emaSupport);
          emaSupport = (if ema100 < emaSupport then ema100 else emaSupport);
          emaSupport = (if ema200 < emaSupport then ema200 else emaSupport)
      in emaSupport)"

definition getHighestEMA :: "real \<Rightarrow> real \<Rightarrow> real \<Rightarrow> real \<Rightarrow> real" where
  "getHighestEMA ema20 ema50 ema100 ema200 =
     (let emaResistance = ema20;
          emaResistance = (if ema50 > emaResistance then ema50 else emaResistance);
          emaResistance = (if ema100 > emaResistance then ema100 else emaResistance);
          emaResistance = (if ema200 > emaResistance then ema200 else emaResistance)
      in emaResistance)"

definition isReversalBodyAboveSupport :: "Candle \<Rightarrow> real \<Rightarrow> real \<Rightarrow> real \<Rightarrow> real \<Rightarrow> bool" where
  "isReversalBodyAboveSupport candle ema20 ema50 ema100 ema200 =
     (let emaSupport = getLowestEMA ema20 ema50 ema100 ema200;
          reversalBody = (Open candle + Close candle) / 2
      in reversalBody > emaSupport)"

definition isTailPiercingSupport :: "Candle \<Rightarrow> Candle \<Rightarrow> real \<Rightarrow> real \<Rightarrow> real \<Rightarrow> real \<Rightarrow> bool" where
  "isTailPiercingSupport reversalCandle previousCandle ema20 ema50 ema100 ema200 =
     (let emaSupport = getLowestEMA ema20 ema50 ema100 ema200;
          reversalLow = Low reversalCandle;
          previousBearLow = Low previousCandle
      in reversalLow < emaSupport \<and> reversalLow < previousBearLow)"

definition isBullishConfirmation :: "Candle \<Rightarrow> Candle \<Rightarrow> bool" where
  "isBullishConfirmation confirmationCandle reversalCandle =
     (if Close confirmationCandle \<le> High reversalCandle then False
      else if Close confirmationCandle \<le> Open confirmationCandle then False
      else Low confirmationCandle > Low reversalCandle)"

definition isReversalBodyBelowResistance :: "Candle \<Rightarrow> real \<Rightarrow> real \<Rightarrow> real \<Rightarrow> real \<Rightarrow> bool" where
  "isReversalBodyBelowResistance candle ema20 ema50 ema100 ema200 =
     (let emaResistance = getHighestEMA ema20 ema50 ema100 ema200;
          reversalBody = (Open candle + Close candle) / 2
      in reversalBody < emaResistance)"

definition isTailPiercingResistance :: "Candle \<Rightarrow> Candle \<Rightarrow> real \<Rightarrow> real \<Rightarrow> real \<Rightarrow> real \<Rightarrow> bool" where
  "isTailPiercingResistance reversalCandle previousCandle ema20 ema50 ema100 ema200 =
     (let emaResistance = getHighestEMA ema20 ema50 ema100 ema200;
          reversalHigh = High reversalCandle;
          previousBullHigh = High previousCandle
      in reversalHigh > emaResistance \<and> reversalHigh > previousBullHigh)"

definition isBearishConfirmation :: "Candle \<Rightarrow> Candle \<Rightarrow> bool" where
  "isBearishConfirmation confirmationCandle reversalCandle =
     (if Close confirmationCandle \<ge> Low reversalCandle then False
      else if Close confirmationCandle \<ge> Open confirmationCandle then False
      else High confirmationCandle < High reversalCandle)"

definition isBullishPinbar :: "Candle \<Rightarrow> bool" where
  "isBullishPinbar candle =
     (let bodySize = abs_f (Close candle - Open candle);
          totalRange = High candle - Low candle
      in if quotient_gt (fdiv bodySize totalRange) (3 / 10) then False
         else
           let lowerWick = min_f (Open candle) (Close candle) - Low candle
           in quotient_ge (fdiv lowerWick totalRange) (6 / 10))"

definition isBearishPinbar :: "Candle \<Rightarrow> bool" where
  "isBearishPinbar candle =
     (let bodySize = abs_f (Close candle - Open candle);
          totalRange = High candle - Low candle
      in if quotient_gt (fdiv bodySize totalRange) (3 / 10) then False
         else
           let upperWick = High candle - max_f (Open candle) (Close candle)
           in quotient_ge (fdiv upperWick totalRange) (6 / 10))"

definition DetectLong2CandlestickReversal :: "Candle list \<Rightarrow> real \<Rightarrow> real \<Rightarrow> real \<Rightarrow> real \<Rightarrow> bool" where
  "DetectLong2CandlestickReversal candles ema20 ema50 ema100 ema200 =
     (if length candles < 3 then False
      else
        let lastCandle = candles ! (length candles - 1);
            secondCandle = candles ! (length candles - 2);
            firstCandle = candles ! (length candles - 3)
        in if \<not> isReversalBodyAboveSupport secondCandle ema20 ema50 ema100 ema200 then False
           else if \<not> isTailPiercingSupport secondCandle firstCandle ema20 ema50 ema100 ema200
           then False
           else if \<not> isBullishConfirmation lastCandle secondCandle then False
           else True)"

definition DetectShort2CandlestickReversal :: "Candle list \<Rightarrow> real \<Rightarrow> real \<Rightarrow> real \<Rightarrow> real \<Rightarrow> bool" where
  "DetectShort2CandlestickReversal candles ema20 ema50 ema100 ema200 =
     (if length candles < 3 then False
      else
        let lastCandle = candles ! (length candles - 1);
            secondCandle = candles ! (length candles - 2);
            firstCandle = candles ! (length candles - 3)
        in if \<not> isReversalBodyBelowResistance secondCandle ema20 ema50 ema100 ema200 then False
           else if \<not> isTailPiercingResistance secondCandle firstCandle ema20 ema50 ema100 ema200
           then False
           else if \<not> isBearishConfirmation lastCandle secondCandle then False
           else True)"

definition DetectLongPinbarReversal :: "Candle list \<Rightarrow> real \<Rightarrow> real \<Rightarrow> real \<Rightarrow> real \<Rightarrow> bool" where
  "DetectLongPinbarReversal candles ema20 ema50 ema100 ema200 =
     (if length candles < 3 then False
      else
        let pinbar = candles ! (length candles - 2);
            confirmation = candles ! (length candles - 1)
        in if \<not> isBullishPinbar pinbar then False
           else
             let emaSupport = getLowestEMA ema20 ema50 ema100 ema200;
                 pinbarBody = (Open pinbar + Close pinbar) / 2
             in if pinbarBody \<le> emaSupport then False
                else if Low pinbar \<ge> emaSupport then False
                else if \<not> isBullishConfirmation confirmation pinbar then False
                else True)"

definition DetectShortPinbarReversal :: "Candle list \<Rightarrow> real \<Rightarrow> real \<Rightarrow> real \<Rightarrow> real \<Rightarrow> bool" where
  "DetectShortPinbarReversal candles ema20 ema50 ema100 ema200 =
     (if length candles < 3 then False
      else
        let pinbar = candles ! (length candles - 2);
            confirmation = candles ! (length candles - 1)
        in if \<not> isBearishPinbar pinbar then False
           else
             let emaResistance = getHighestEMA ema20 ema50 ema100 ema200;
                 pinbarBody = (Open pinbar + Close pinbar) / 2
             in if pinbarBody \<ge> emaResistance then False
                else if High pinbar \<le> emaResistance then False
                else if \<not> isBearishConfirmation confirmation pinbar then False
                else True)"

definition DetectAllPatterns :: "Candle list \<Rightarrow> real \<Rightarrow> real \<Rightarrow> real \<Rightarrow> real \<Rightarrow> PatternType" where
  "DetectAllPatterns candles ema20 ema50 ema100 ema200 =
     (if length candles < 3 then NoPattern
      else if DetectLong2CandlestickReversal candles ema20 ema50 ema100 ema200
      then Long2CandlestickReversal
      else if DetectShort2CandlestickReversal candles ema20 ema50 ema100 ema200
      then Short2CandlestickReversal
      else if DetectLongPinbarReversal candles ema20 ema50 ema100 ema200
      then LongPinbarReversal
      else if DetectShortPinbarReversal candles ema20 ema50 ema100 ema200
      then ShortPinbarReversal
      else NoPattern)"

section \<open>Scenario validation (strategy package, \<open>SAPANStrategy\<close>)\<close>

record ValidationResult =
  IsValid :: bool
  EMATrendValid :: bool
  StochasticValid :: bool
  MACDValid :: bool
  PatternValid :: bool
  PatternType :: PatternType
  Symbol :: string
  ValidationMessage :: string

text \<open>The zero value \<open>ValidationResult{}\<close>; \<open>NoPattern\<close> is the \<open>iota\<close> constant 0.\<close>

definition ValidationResult_zero :: ValidationResult where
  "ValidationResult_zero =
     \<lparr>IsValid = False, EMATrendValid = False, StochasticValid = False, MACDValid = False,
      PatternValid = False, PatternType = NoPattern, Symbol = [], ValidationMessage = []\<rparr>"

datatype ScenarioType = LongScenario | ShortScenario

definition extractClosingPrices :: "Candle list \<Rightarrow> real list" where
  "extractClosingPrices candles = map Close candles"

definition validateEMATrend :: "real list \<Rightarrow> bool" where
  "validateEMATrend closes = ValidateTrend closes"

definition validateEMADowntrend :: "real list \<Rightarrow> bool" where
  "validateEMADowntrend closes = ValidateDowntrend closes"

definition validateStochasticRSILong :: "real list \<Rightarrow> bool" where
  "validateStochasticRSILong closes = IsOversoldWithCrossover closes 5 3 3"

definition validateStochasticRSIShort :: "real list \<Rightarrow> bool" where
  "validateStochasticRSIShort closes = IsOverboughtWithCrossover closes 5 3 3"

definition validateMACDLong :: "real list \<Rightarrow> bool" where
  "validateMACDLong closes = IsBearMarketAcceptable closes 50 100 9"

definition validateMACDShort :: "real list \<Rightarrow> bool" where
  "validateMACDShort closes = IsBullMarketAcceptable closes 50 100 9"

text \<open>
  \<open>validateSetup\<close>. Each gate writes its flag into \<open>result\<close> and returns at once when the
  flag is false; the two branches on \<open>scenario\<close> of each gate differ only in the check
  called and in the message.
\<close>

definition validateSetup :: "string \<Rightarrow> Candle list \<Rightarrow> ScenarioType \<Rightarrow> ValidationResult" where
  "validateSetup symbol candles scenario =
     (let result = ValidationResult_zero\<lparr>Symbol := symbol\<rparr>;
          closes = extractClosingPrices candles
      in if length closes < 200
         then result\<lparr>ValidationMessage := ''Insufficient data for analysis''\<rparr>
         else
           let result = result\<lparr>EMATrendValid :=
                 (if scenario = LongScenario then validateEMATrend closes
                  else validateEMADowntrend closes)\<rparr>
           in if \<not> EMATrendValid result
              then result\<lparr>ValidationMessage :=
                     (if scenario = LongScenario
                      then ''EMA trend not in uptrend order (20 > 50 > 100 > 200)''
                      else ''EMA trend not in downtrend order (20 < 50 < 100 < 200)'')\<rparr>
              else
                let result = result\<lparr>StochasticValid :=
                      (if scenario = LongScenario then validateStochasticRSILong closes
                       else validateStochasticRSIShort closes)\<rparr>
                in if \<not> StochasticValid result
                   then result\<lparr>ValidationMessage :=
                          (if scenario = LongScenario
                           then ''Stochastic RSI not in oversold region with crossover''
                           else ''Stochastic RSI not in overbought region with crossover'')\<rparr>
                   else
                     let result = result\<lparr>MACDValid :=
                           (if scenario = LongScenario then validateMACDLong closes
                            else validateMACDShort closes)\<rparr>
                     in if \<not> MACDValid result
                        then result\<lparr>ValidationMessage :=
                               (if scenario = LongScenario
                                then ''MACD not in bull market or bear market exceeds 5 candlesticks''
                                else ''MACD not in bear market or bull market exceeds 5 candlesticks'')\<rparr>
                        else
                          let result = result\<lparr>PatternType :=
                                DetectAllPatterns candles
                                  (Calculate_ema closes 20) (Calculate_ema closes 50)
                                  (Calculate_ema closes 100) (Calculate_ema closes 200)\<rparr>;
                              result = result\<lparr>PatternValid :=
                                (if scenario = LongScenario
                                 then PatternType result = Long2CandlestickReversal
                                      \<or> PatternType result = LongPinbarReversal
                                 else PatternType result = Short2CandlestickReversal
                                      \<or> PatternType result = ShortPinbarReversal)\<rparr>
                          in if \<not> PatternValid result
                             then result\<lparr>ValidationMessage :=
                                    (if scenario = LongScenario
                                     then ''Long reversal pattern not detected''
                                     else ''Short reversal pattern not detected'')\<rparr>
                             else
                               result\<lparr>IsValid := True,
                                      ValidationMessage :=
                                        (if scenario = LongScenario
                                         then ''All SAPAN long strategy conditions met''
                                         else ''All SAPAN short strategy conditions met'')\<rparr>)"

definition ValidateLongSetup :: "string \<Rightarrow> Candle list \<Rightarrow> ValidationResult" where
  "ValidateLongSetup symbol candles = validateSetup symbol candles LongScenario"

definition ValidateShortSetup :: "string \<Rightarrow> Candle list \<Rightarrow> ValidationResult" where
  "ValidateShortSetup symbol candles = validateSetup symbol candles ShortScenario"

section \<open>Watch lists (watcher package)\<close>

text \<open>
  \<open>WatchListManager\<close>: two maps from a timestamp to a symbol. The mutex is not modelled.
  \<open>AddTo\<dots>WatchList\<close> reads the clock itself (\<open>time.Now().UTC()\<close>); the reading is the
  argument \<open>now\<close>.
\<close>

record WatchListManager =
  longWatchList :: "nat \<rightharpoonup> string"
  shortWatchList :: "nat \<rightharpoonup> string"

definition NewWatchListManager :: WatchListManager where
  "NewWatchListManager = \<lparr>longWatchList = Map.empty, shortWatchList = Map.empty\<rparr>"

definition AddToLongWatchList :: "nat \<Rightarrow> string \<Rightarrow> WatchListManager \<Rightarrow> WatchListManager" where
  "AddToLongWatchList now symbol w = w\<lparr>longWatchList := (longWatchList w)(now \<mapsto> symbol)\<rparr>"

definition AddToShortWatchList :: "nat \<Rightarrow> string \<Rightarrow> WatchListManager \<Rightarrow> WatchListManager" where
  "AddToShortWatchList now symbol w = w\<lparr>shortWatchList := (shortWatchList w)(now \<mapsto> symbol)\<rparr>"

section \<open>Processing one symbol (processor package)\<close>

record Stock =
  StockSymbol :: string
  Name :: string
  Sector :: string
  Industry :: string

text \<open>\<open>ProcessingResult\<close>; \<open>Error\<close> is \<open>None\<close> for Go's \<open>nil\<close>. The fields \<open>Symbol\<close> and
  \<open>IsValid\<close> carry a prefix here, the names being those of \<open>ValidationResult\<close> already.\<close>

record ProcessingResult =
  ResultSymbol :: string
  Success :: bool
  Error :: "string option"
  ResultIsValid :: bool
  IsLongValid :: bool
  IsShortValid :: bool
  Message :: string
  Processed :: bool

definition ProcessingResult_zero :: ProcessingResult where
  "ProcessingResult_zero =
     \<lparr>ResultSymbol = [], Success = False, Error = None, ResultIsValid = False,
      IsLongValid = False, IsShortValid = False, Message = [], Processed = False\<rparr>"

text \<open>
  What \<open>processStock\<close> does to the world outside its return value: the watch lists, and
  the calls it makes to the fetcher and to the strategy, kept here in order of occurrence
  so that which calls were made can be stated. The source keeps no such list; logging
  (\<open>log.Printf\<close>) is left out.
\<close>

datatype call = CallFetchStockData string nat
              | CallValidateLongSetup string
              | CallValidateShortSetup string

record world =
  watchListManager :: WatchListManager
  calls :: "call list"

text \<open>
  \<open>processStock\<close>. The fetcher is the external HTTP client: \<open>fetch symbol outputSize\<close>
  is what \<open>FetchStockData\<close> returns, \<open>Inl err\<close> for a non-nil error and \<open>Inr candles\<close>
  for the candle list.
\<close>

definition processStock ::
  "(string \<Rightarrow> nat \<Rightarrow> string + Candle list) \<Rightarrow> nat \<Rightarrow> world \<Rightarrow> Stock \<Rightarrow> ProcessingResult \<times> world" where
  "processStock fetch now w stock =
     (let result = ProcessingResult_zero\<lparr>ResultSymbol := StockSymbol stock, Processed := True\<rparr>;
          w = w\<lparr>calls := calls w @ [CallFetchStockData (StockSymbol stock) 200]\<rparr>
      in case fetch (StockSymbol stock) 200 of
           Inl err \<Rightarrow> (result\<lparr>Error := Some err, Success := False\<rparr>, w)
         | Inr candles \<Rightarrow>
             let longResult = ValidateLongSetup (StockSymbol stock) candles;
                 w = w\<lparr>calls := calls w @ [CallValidateLongSetup (StockSymbol stock)]\<rparr>;
                 (shortResult, w) =
                   (if \<not> IsValid longResult
                    then (ValidateShortSetup (StockSymbol stock) candles,
                          w\<lparr>calls := calls w @ [CallValidateShortSetup (StockSymbol stock)]\<rparr>)
                    else (ValidationResult_zero, w));
                 result = result\<lparr>IsLongValid := IsValid longResult,
                                 IsShortValid := (\<not> IsValid longResult \<and> IsValid shortResult),
                                 Success := True,
                                 ResultIsValid := (IsValid longResult \<or> IsValid shortResult)\<rparr>
             in if IsValid longResult
                then (result\<lparr>Message := ValidationMessage longResult\<rparr>,
                      w\<lparr>watchListManager :=
                          AddToLongWatchList now (StockSymbol stock) (watchListManager w)\<rparr>)
                else if IsValid shortResult
                then (result\<lparr>Message := ValidationMessage shortResult\<rparr>,
                      w\<lparr>watchListManager :=
                          AddToShortWatchList now (StockSymbol stock) (watchListManager w)\<rparr>)
                else (result\<lparr>Message := ''No valid SAPAN setups detected''\<rparr>, w))"

text \<open>
  The loop of one \<open>worker\<close>, on the stocks it takes from the channel, each paired with
  the clock reading of its processing: one result is sent per stock. The progress counters
  and the delay between requests are left out.
\<close>

fun worker ::
  "(string \<Rightarrow> nat \<Rightarrow> string + Candle list) \<Rightarrow> world \<Rightarrow> (Stock \<times> nat) list \<Rightarrow> ProcessingResult list \<times> world" where
  "worker fetch w [] = ([], w)"
| "worker fetch w ((stock, now) # rest) =
     (let (result, w') = processStock fetch now w stock;
          (results, w'') = worker fetch w' rest
      in (result # results, w''))"

section \<open>The indicators as the specification words them\<close>

text \<open>
  The \<open>%K\<close> trajectory of a price series, and the \<open>%D\<close> at index \<open>n\<close> of a trajectory:
  the simple average of the \<open>stochDPeriod\<close> values of \<open>%K\<close> that end at \<open>n\<close>. The current
  \<open>%K\<close> and \<open>%D\<close> are those at the last index, the previous ones those at the index
  before.
\<close>

definition percentK_trajectory :: "real list \<Rightarrow> nat \<Rightarrow> nat \<Rightarrow> real list" where
  "percentK_trajectory prices rsiPeriod stochKPeriod =
     stochKValues (stoch_rsiValues prices rsiPeriod) stochKPeriod"

definition percentD_at :: "real list \<Rightarrow> nat \<Rightarrow> nat \<Rightarrow> real" where
  "percentD_at ks stochDPeriod n =
     sum_list (slice ks (n + 1 - stochDPeriod) (n + 1)) / real stochDPeriod"

text \<open>
  The backward scan of the market-duration checks. A prefix of \<open>n\<close> prices is bearish when
  its MACD is at or below its signal, bullish (for the mirror check) when its MACD is at or
  above it. The scan visits the prefixes from the whole series downwards, as long as they
  have at least \<open>slowPeriod\<close> and at least 2 prices; the run is the number of prefixes
  visited before the first one in the other state.
\<close>

definition bearishPrefix :: "real list \<Rightarrow> nat \<Rightarrow> nat \<Rightarrow> nat \<Rightarrow> nat \<Rightarrow> bool" where
  "bearishPrefix prices fastPeriod slowPeriod signalPeriod n =
     (MACD (Calculate_macd (take n prices) fastPeriod slowPeriod signalPeriod)
        \<le> Signal (Calculate_macd (take n prices) fastPeriod slowPeriod signalPeriod))"

definition bearishRun :: "real list \<Rightarrow> nat \<Rightarrow> nat \<Rightarrow> nat \<Rightarrow> nat" where
  "bearishRun prices fastPeriod slowPeriod signalPeriod =
     length (takeWhile (bearishPrefix prices fastPeriod slowPeriod signalPeriod)
                       (rev [max 2 slowPeriod..<Suc (length prices)]))"

definition bullishPrefix :: "real list \<Rightarrow> nat \<Rightarrow> nat \<Rightarrow> nat \<Rightarrow> nat \<Rightarrow> bool" where
  "bullishPrefix prices fastPeriod slowPeriod signalPeriod n =
     (MACD (Calculate_macd (take n prices) fastPeriod slowPeriod signalPeriod)
        \<ge> Signal (Calculate_macd (take n prices) fastPeriod slowPeriod signalPeriod))"

definition bullishRun :: "real list \<Rightarrow> nat \<Rightarrow> nat \<Rightarrow> nat \<Rightarrow> nat" where
  "bullishRun prices fastPeriod slowPeriod signalPeriod =
     length (takeWhile (bullishPrefix prices fastPeriod slowPeriod signalPeriod)
                       (rev [max 2 slowPeriod..<Suc (length prices)]))"

section \<open>Properties of the EMA\<close>

lemma foldl_index_sum:
  "n \<le> length xs \<Longrightarrow> foldl (\<lambda>s i. s + xs ! i) (a::real) [0..<n] = a + sum_list (take n xs)"
proof (induction n)
  case 0
  then show ?case by simp
next
  case (Suc n)
  then have "take (Suc n) xs = take n xs @ [xs ! n]"
    by (simp add: take_Suc_conv_app_nth)
  with Suc show ?case by simp
qed

lemma ema_loop_recurrence:
  "foldl (\<lambda>ema i. (prices ! i * ema_alpha period) + (ema * (1 - ema_alpha period)))
         (ema_seed prices period) [period..<period + k]
   = ema_recurrence prices period k"
  by (induction k) simp_all

text \<open>
  C5. \<open>Calculate_ema\<close> returns the sentinel 0 when the series is shorter than the period;
  otherwise it is the seed (mean of the first \<open>period\<close> prices) followed by the recurrence
  \<open>ema = price[i] * \<alpha> + ema * (1 - \<alpha>)\<close> at every index from \<open>period\<close> to
  \<open>len(series) - 1\<close>, with \<open>\<alpha> = 2 / (period + 1)\<close>.
\<close>

theorem ema_sentinel_and_recurrence:
  "0 < period \<Longrightarrow>
   Calculate_ema prices period =
     (if length prices < period then 0
      else ema_recurrence prices period (length prices - period))"
proof (cases "length prices < period")
  case True
  then show ?thesis by (simp add: Calculate_ema_def)
next
  case False
  then have le: "period \<le> length prices" by simp
  then have len: "length prices = period + (length prices - period)" by simp
  have seed: "foldl (\<lambda>sum i. sum + prices ! i) 0 [0..<period] / real period
                = ema_seed prices period"
    using le by (simp add: foldl_index_sum ema_seed_def)
  have "Calculate_ema prices period =
          foldl (\<lambda>ema i. (prices ! i * ema_alpha period) + (ema * (1 - ema_alpha period)))
                (ema_seed prices period) [period..<period + (length prices - period)]"
    using False seed len by (simp add: Calculate_ema_def Let_def ema_alpha_def)
  then show ?thesis
    using False by (simp only: ema_loop_recurrence if_False)
qed

theorem ema_sentinel_and_recurrence_witness:
  "0 < (2::nat) \<and> Calculate_ema [1, 2, 3, 4] 2 = 7 / 2 \<and> Calculate_ema [1] 2 = 0"
proof -
  have two: "(2::nat) = Suc (Suc 0)" by simp
  have "ema_recurrence [1, 2, 3, 4] 2 (Suc (Suc 0)) = 7 / 2"
    by (simp add: ema_seed_def ema_alpha_def)
  then show ?thesis
    using ema_sentinel_and_recurrence [of 2 "[1, 2, 3, 4]"]
          ema_sentinel_and_recurrence [of 2 "[1]"]
    by (simp add: two [symmetric])
qed

section \<open>Properties of the RSI\<close>

lemma increasing_losses_zero:
  assumes "sorted_wrt (<) prices" "j < length (rsi_losses prices)"
  shows "rsi_losses prices ! j = 0"
proof -
  from assms(2) have j: "Suc j < length prices" by (simp add: rsi_losses_def)
  with assms(1) have "prices ! j < prices ! Suc j"
    by (simp add: sorted_wrt_iff_nth_less)
  with j show ?thesis by (simp add: rsi_losses_def Let_def)
qed

lemma sum_loop_loss_zero:
  "\<forall>i\<in>set is. losses ! i = (0::real) \<Longrightarrow>
   snd (foldl (\<lambda>(avgGain, avgLoss) i. (avgGain + gains ! i, avgLoss + losses ! i)) (a, 0) is) = 0"
  by (induction "is" arbitrary: a) simp_all

lemma wilder_loop_loss_zero:
  "\<forall>i\<in>set is. losses ! i = (0::real) \<Longrightarrow>
   snd (foldl (\<lambda>(avgGain, avgLoss) i.
                 ((avgGain * c + gains ! i) / p, (avgLoss * c + losses ! i) / p)) (a, 0) is) = 0"
  by (induction "is" arbitrary: a) simp_all

text \<open>
  C7. On a strictly increasing series of at least \<open>period + 1\<close> prices every change is a
  gain, every loss is 0, the average loss stays 0 through the Wilder smoothing, and
  \<open>Calculate_rsi\<close> returns exactly 100.
\<close>

theorem rsi_strictly_increasing:
  assumes "sorted_wrt (<) prices" "period + 1 \<le> length prices" "0 < period"
  shows "Calculate_rsi prices period = 100"
proof -
  let ?gains = "rsi_gains prices" and ?losses = "rsi_losses prices"
  have len: "length ?gains = length prices - 1" "length ?losses = length prices - 1"
    by (simp_all add: rsi_gains_def rsi_losses_def)
  have zero: "\<forall>i\<in>set is. ?losses ! i = 0" if "set is \<subseteq> {..<length ?losses}" for "is"
    using that increasing_losses_zero [OF assms(1)] by auto
  have z1: "\<forall>i\<in>set [0..<period]. ?losses ! i = 0"
    using assms(2) len by (intro zero) auto
  have z2: "\<forall>i\<in>set [period..<length ?gains]. ?losses ! i = 0"
    using len by (intro zero) auto
  obtain sg sl where s: "foldl (\<lambda>(avgGain, avgLoss) i. (avgGain + ?gains ! i, avgLoss + ?losses ! i))
                         (0, 0) [0..<period] = (sg, sl)" by fastforce
  have sl: "sl = 0" using sum_loop_loss_zero [OF z1, of ?gains 0] s by simp
  obtain ag al where a: "foldl (\<lambda>(avgGain, avgLoss) i.
                            ((avgGain * real (period - 1) + ?gains ! i) / real period,
                             (avgLoss * real (period - 1) + ?losses ! i) / real period))
                         (sg / real period, sl / real period) [period..<length ?gains] = (ag, al)"
    by fastforce
  have al: "al = 0"
    using wilder_loop_loss_zero [OF z2, of "real (period - 1)" ?gains "real period" "sg / real period"] a sl
    by simp
  show ?thesis
    using assms(2) len s a al by (simp add: Calculate_rsi_def Let_def)
qed

theorem rsi_strictly_increasing_witness:
  "sorted_wrt (<) [1, 2, 4 :: real] \<and> 2 + 1 \<le> length [1, 2, 4 :: real] \<and> 0 < (2::nat)
   \<and> Calculate_rsi [1, 2, 4] 2 = 100"
  using rsi_strictly_increasing [of "[1, 2, 4]" 2] by simp

section \<open>Properties of the Stochastic RSI\<close>

lemma window_loop_Max_Min:
  "foldl (\<lambda>(highestRSI, lowestRSI) j.
            (if rsiValues ! j > highestRSI then rsiValues ! j else highestRSI,
             if rsiValues ! j < lowestRSI then rsiValues ! j else lowestRSI))
         (h0, l0) js
   = (Max (insert h0 ((!) rsiValues ` set js)), Min (insert l0 ((!) rsiValues ` set js :: real set)))"
proof (induction js rule: rev_induct)
  case Nil
  then show ?case by simp
next
  case (snoc j js)
  define M where "M = Max (insert h0 ((!) rsiValues ` set js))"
  define m where "m = Min (insert l0 ((!) rsiValues ` set js))"
  have fin: "finite (insert h0 ((!) rsiValues ` set js))" "finite (insert l0 ((!) rsiValues ` set js))"
    by simp_all
  have "insert h0 ((!) rsiValues ` set (js @ [j])) = insert (rsiValues ! j) (insert h0 ((!) rsiValues ` set js))"
    by auto
  then have M': "Max (insert h0 ((!) rsiValues ` set (js @ [j]))) = max (rsiValues ! j) M"
    unfolding M_def using Max_insert [OF fin(1), of "rsiValues ! j"] by simp
  have "insert l0 ((!) rsiValues ` set (js @ [j])) = insert (rsiValues ! j) (insert l0 ((!) rsiValues ` set js))"
    by auto
  then have m': "Min (insert l0 ((!) rsiValues ` set (js @ [j]))) = min (rsiValues ! j) m"
    unfolding m_def using Min_insert [OF fin(2), of "rsiValues ! j"] by simp
  have "foldl (\<lambda>(highestRSI, lowestRSI) j.
            (if rsiValues ! j > highestRSI then rsiValues ! j else highestRSI,
             if rsiValues ! j < lowestRSI then rsiValues ! j else lowestRSI))
         (h0, l0) js = (M, m)"
    using snoc by (simp add: M_def m_def)
  then show ?case
    unfolding M' m' by (simp add: max_def min_def)
qed

lemma slice_set_nth:
  "a \<le> b \<Longrightarrow> b \<le> length xs \<Longrightarrow> set (slice xs a b) = (!) xs ` set [a..<b]"
proof -
  assume ab: "a \<le> b" "b \<le> length xs"
  have "slice xs a b = map ((!) xs) [a..<b]"
    unfolding slice_def
    by (rule nth_equalityI) (use ab in \<open>auto simp: nth_append\<close>)
  then show ?thesis by simp
qed

lemma stochK_window_Max_Min:
  assumes "0 < k" "k - 1 \<le> i" "i < length rsiValues"
  shows "stochK_window rsiValues k i =
           (Max (set (slice rsiValues (i + 1 - k) (i + 1))),
            Min (set (slice rsiValues (i + 1 - k) (i + 1))))"
proof -
  let ?ps = "i + 1 - k"
  have ps: "(if int i - int k + 1 < 0 then 0 else nat (int i - int k + 1)) = ?ps"
    using assms by auto
  have mem: "rsiValues ! ?ps \<in> (!) rsiValues ` set [?ps..<i + 1]"
    using assms by auto
  have set: "set (slice rsiValues ?ps (i + 1)) = (!) rsiValues ` set [?ps..<i + 1]"
    using assms by (intro slice_set_nth) auto
  show ?thesis
    unfolding stochK_window_def Let_def ps window_loop_Max_Min set
    using mem by (simp add: insert_absorb)
qed

lemma ratio_percent:
  fixes c l h :: real
  assumes "l \<le> c" "c \<le> h" "l < h"
  shows "0 \<le> ((c - l) / (h - l)) * 100" "((c - l) / (h - l)) * 100 \<le> 100"
  using assms by (simp_all add: field_simps)

lemma stochK_at_range:
  assumes "0 < k" "k - 1 \<le> i" "i < length rsiValues"
  shows "0 \<le> stochK_at rsiValues k i \<and> stochK_at rsiValues k i \<le> 100
         \<and> (Max (set (slice rsiValues (i + 1 - k) (i + 1)))
              = Min (set (slice rsiValues (i + 1 - k) (i + 1)))
            \<longrightarrow> stochK_at rsiValues k i = 50)"
proof -
  let ?W = "set (slice rsiValues (i + 1 - k) (i + 1))"
  have set: "?W = (!) rsiValues ` set [i + 1 - k..<i + 1]"
    using assms by (intro slice_set_nth) auto
  have cur: "rsiValues ! i \<in> ?W" unfolding set using assms by auto
  have fin: "finite ?W" by simp
  have lo: "Min ?W \<le> rsiValues ! i" using cur fin by (rule_tac Min_le) 
  have hi: "rsiValues ! i \<le> Max ?W" using cur fin by (rule_tac Max_ge) 
  have at: "stochK_at rsiValues k i =
              (if Max ?W = Min ?W then 50
               else ((rsiValues ! i - Min ?W) / (Max ?W - Min ?W)) * 100)"
    by (simp add: stochK_at_def stochK_window_Max_Min [OF assms])
  show ?thesis
  proof (cases "Max ?W = Min ?W")
    case True
    then show ?thesis by (simp add: at)
  next
    case False
    with lo hi have "Min ?W < Max ?W" by simp
    from ratio_percent [OF lo hi this] show ?thesis using False unfolding at by simp
  qed
qed


lemma stochKValues_length:
  "length (stochKValues rsiValues k) = length rsiValues - (k - 1)"
  by (simp add: stochKValues_def)

lemma stochKValues_nth:
  "n < length (stochKValues rsiValues k) \<Longrightarrow>
   stochKValues rsiValues k ! n = stochK_at rsiValues k (k - 1 + n)"
  by (simp add: stochKValues_def)

lemma stochKValues_range:
  assumes "0 < k" "n < length (stochKValues rsiValues k)"
  shows "0 \<le> stochKValues rsiValues k ! n \<and> stochKValues rsiValues k ! n \<le> 100
         \<and> (Max (set (slice rsiValues n (n + k))) = Min (set (slice rsiValues n (n + k)))
            \<longrightarrow> stochKValues rsiValues k ! n = 50)"
proof -
  from assms have i: "k - 1 \<le> k - 1 + n" "k - 1 + n < length rsiValues"
    by (simp_all add: stochKValues_length)
  from assms(1) have eq: "k - 1 + n + 1 - k = n" "k - 1 + n + 1 = n + k" by simp_all
  show ?thesis
    using stochK_at_range [OF assms(1) i] stochKValues_nth [OF assms(2)]
    unfolding eq by simp
qed

text \<open>
  C6. Every \<open>%K\<close> value of the trajectory lies in \<open>[0, 100]\<close>, and is 50 when the highest
  RSI of its window equals the lowest; the window of the \<open>n\<close>-th value is
  \<open>rsiValues[n : n + stochKPeriod]\<close>. The \<open>K\<close> that \<open>Calculate_stoch\<close> returns lies in
  \<open>[0, 100]\<close> as well.
\<close>

theorem stochK_in_range:
  assumes "0 < rsiPeriod" "0 < stochKPeriod"
  shows "(\<forall>n < length (stochKValues (stoch_rsiValues prices rsiPeriod) stochKPeriod).
            0 \<le> stochKValues (stoch_rsiValues prices rsiPeriod) stochKPeriod ! n
            \<and> stochKValues (stoch_rsiValues prices rsiPeriod) stochKPeriod ! n \<le> 100
            \<and> (Max (set (slice (stoch_rsiValues prices rsiPeriod) n (n + stochKPeriod)))
                 = Min (set (slice (stoch_rsiValues prices rsiPeriod) n (n + stochKPeriod)))
               \<longrightarrow> stochKValues (stoch_rsiValues prices rsiPeriod) stochKPeriod ! n = 50))
         \<and> 0 \<le> K (Calculate_stoch prices rsiPeriod stochKPeriod stochDPeriod)
         \<and> K (Calculate_stoch prices rsiPeriod stochKPeriod stochDPeriod) \<le> 100"
proof -
  let ?rsi = "stoch_rsiValues prices rsiPeriod"
  let ?ks = "stochKValues ?rsi stochKPeriod"
  have traj: "\<forall>n < length ?ks. 0 \<le> ?ks ! n \<and> ?ks ! n \<le> 100
            \<and> (Max (set (slice ?rsi n (n + stochKPeriod)))
                 = Min (set (slice ?rsi n (n + stochKPeriod))) \<longrightarrow> ?ks ! n = 50)"
    using stochKValues_range [OF assms(2)] by blast
  have last: "0 \<le> ?ks ! (length ?ks - 1) \<and> ?ks ! (length ?ks - 1) \<le> 100"
    if "stochKPeriod + stochDPeriod \<le> length ?rsi"
  proof -
    from that assms(2) have "length ?ks - 1 < length ?ks"
      by (simp add: stochKValues_length)
    with traj show ?thesis by blast
  qed
  have "0 \<le> K (Calculate_stoch prices rsiPeriod stochKPeriod stochDPeriod)
        \<and> K (Calculate_stoch prices rsiPeriod stochKPeriod stochDPeriod) \<le> 100"
    using last by (simp add: Calculate_stoch_def Let_def StochasticRSIResult_zero_def)
  with traj show ?thesis by blast
qed


theorem stochK_in_range_witness:
  "0 < (1::nat) \<and> 0 < (2::nat)
   \<and> stochKValues (stoch_rsiValues [1, 2, 1, 3, 2, 5] 1) 2 = [0, 100, 0, 100]
   \<and> 0 \<le> K (Calculate_stoch [1, 2, 1, 3, 2, 5] 1 2 2)
   \<and> K (Calculate_stoch [1, 2, 1, 3, 2, 5] 1 2 2) \<le> 100"
proof -
  have "stochKValues (stoch_rsiValues [1, 2, 1, 3, 2, 5] 1) 2 = [0, 100, 0, 100]"
    by code_simp
  with stochK_in_range [of 1 2 "[1, 2, 1, 3, 2, 5]" 2] show ?thesis
    by simp
qed

lemma slice_map_nth:
  "a \<le> b \<Longrightarrow> b \<le> length xs \<Longrightarrow> slice xs a b = map ((!) xs) [a..<b]"
  unfolding slice_def by (rule nth_equalityI) auto

lemma foldl_add_nth:
  "foldl (\<lambda>s i. s + xs ! i) (z::real) js = z + sum_list (map ((!) xs) js)"
  by (induction js arbitrary: z) simp_all

lemma foldl_range_sum:
  "a \<le> b \<Longrightarrow> b \<le> length xs \<Longrightarrow>
   foldl (\<lambda>s i. s + xs ! i) (0::real) [a..<b] = sum_list (slice xs a b)"
  by (simp add: foldl_add_nth slice_map_nth)

lemma slice_butlast:
  "b \<le> length xs - 1 \<Longrightarrow> slice (butlast xs) a b = slice xs a b"
  by (simp add: slice_def butlast_conv_take drop_take min_def)

lemma butlast_map_upt:
  "butlast (map f [m..<n]) = map f [m..<n - 1]"
  by (cases n) (simp_all add: map_butlast [symmetric])

lemma stoch_rsiValues_length:
  "length (stoch_rsiValues prices r) = length prices - r"
  by (simp add: stoch_rsiValues_def)

lemma stoch_rsiValues_butlast:
  "stoch_rsiValues (butlast prices) r = butlast (stoch_rsiValues prices r)"
proof -
  have "butlast (stoch_rsiValues prices r)
          = map (\<lambda>i. Calculate_rsi (slice prices (i - r) (i + 1)) r) [r..<length prices - 1]"
    by (simp add: stoch_rsiValues_def butlast_map_upt)
  also have "\<dots> = map (\<lambda>i. Calculate_rsi (slice (butlast prices) (i - r) (i + 1)) r)
                       [r..<length prices - 1]"
    by (rule map_cong) (auto simp: slice_butlast)
  finally show ?thesis by (simp add: stoch_rsiValues_def)
qed

lemma stochK_window_butlast:
  assumes "0 < k" "i < length rsiValues - 1"
  shows "stochK_window (butlast rsiValues) k i = stochK_window rsiValues k i"
proof -
  define ps where "ps = (if int i - int k + 1 < 0 then 0 else nat (int i - int k + 1))"
  have ps: "ps \<le> i" using assms(1) by (auto simp: ps_def)
  have start: "butlast rsiValues ! ps = rsiValues ! ps"
    using ps assms(2) by (simp add: nth_butlast)
  have "foldl (\<lambda>(highestRSI, lowestRSI) j.
                  (if butlast rsiValues ! j > highestRSI then butlast rsiValues ! j else highestRSI,
                   if butlast rsiValues ! j < lowestRSI then butlast rsiValues ! j else lowestRSI))
               (rsiValues ! ps, rsiValues ! ps) [ps..<i + 1]
        = foldl (\<lambda>(highestRSI, lowestRSI) j.
                  (if rsiValues ! j > highestRSI then rsiValues ! j else highestRSI,
                   if rsiValues ! j < lowestRSI then rsiValues ! j else lowestRSI))
               (rsiValues ! ps, rsiValues ! ps) [ps..<i + 1]"
    by (rule foldl_cong) (use assms(2) in \<open>auto simp: nth_butlast\<close>)
  then show ?thesis
    unfolding stochK_window_def Let_def ps_def [symmetric] start by simp
qed

lemma stochK_at_butlast:
  assumes "0 < k" "i < length rsiValues - 1"
  shows "stochK_at (butlast rsiValues) k i = stochK_at rsiValues k i"
  using assms by (simp add: stochK_at_def stochK_window_butlast nth_butlast)

lemma stochKValues_butlast:
  assumes "0 < k"
  shows "stochKValues (butlast rsiValues) k = butlast (stochKValues rsiValues k)"
proof -
  have "butlast (stochKValues rsiValues k)
          = map (stochK_at rsiValues k) [k - 1..<length rsiValues - 1]"
    by (simp add: stochKValues_def butlast_map_upt)
  also have "\<dots> = map (stochK_at (butlast rsiValues) k) [k - 1..<length rsiValues - 1]"
    by (rule map_cong) (auto simp: stochK_at_butlast [OF assms])
  finally show ?thesis by (simp add: stochKValues_def)
qed

lemma percentK_trajectory_butlast:
  "0 < k \<Longrightarrow> percentK_trajectory (butlast prices) r k = butlast (percentK_trajectory prices r k)"
  by (simp add: percentK_trajectory_def stoch_rsiValues_butlast stochKValues_butlast)

lemma percentK_trajectory_length:
  "length (percentK_trajectory prices r k) = length prices - r - (k - 1)"
  by (simp add: percentK_trajectory_def stochKValues_def stoch_rsiValues_length)

lemma Calculate_stoch_long:
  assumes "0 < r" "0 < k" "0 < d" "r + k + d \<le> length prices"
  shows "Calculate_stoch prices r k d =
           (let ks = percentK_trajectory prices r k; n = length ks - 1
            in \<lparr>K = ks ! n, D = percentD_at ks d n,
                Crossover = (ks ! (n - 1) < percentD_at ks d (n - 1)
                             \<and> ks ! n > percentD_at ks d n \<and> ks ! (n - 1) < 30)\<rparr>)"
proof -
  let ?ks = "percentK_trajectory prices r k"
  let ?L = "length ?ks"
  have L: "?L = length prices - r - (k - 1)" by (rule percentK_trajectory_length)
  with assms have Ld: "d + 1 \<le> ?L" by simp
  have rsi: "\<not> length (stoch_rsiValues prices r) < k + d"
    using assms by (simp add: stoch_rsiValues_length)
  have ix: "?L - 1 + 1 = ?L" "?L - 1 + 1 - d = ?L - d"
          "?L - 1 - 1 + 1 = ?L - 1" "?L - 1 - 1 + 1 - d = ?L - d - 1"
    using Ld assms(3) by simp_all
  have curD: "foldl (\<lambda>sum i. sum + ?ks ! i) 0 [?L - d..<?L] / real d = percentD_at ?ks d (?L - 1)"
    unfolding percentD_at_def ix by (simp add: foldl_range_sum)
  have prevD: "foldl (\<lambda>sum i. sum + ?ks ! i) 0 [?L - d - 1..<?L - 1] / real d
                 = percentD_at ?ks d (?L - 1 - 1)"
    unfolding percentD_at_def ix by (simp add: foldl_range_sum)
  have two: "2 \<le> ?L" "\<not> ?L < d" "d + 1 \<le> ?L" "?L - 2 = ?L - 1 - 1"
    using Ld assms(3) by simp_all
  show ?thesis
    using assms(4) rsi two curD prevD
    unfolding Calculate_stoch_def percentK_trajectory_def [symmetric] Let_def
    by (simp add: percentK_trajectory_def [symmetric])
qed


text \<open>
  C3. The crossover flag is true iff the previous \<open>%K\<close> was below the previous \<open>%D\<close>, the
  current \<open>%K\<close> is above the current \<open>%D\<close>, and the previous \<open>%K\<close> was below 30 (and false
  when the series is too short for a result). The previous \<open>%K\<close> and \<open>%D\<close> are the \<open>K\<close> and
  \<open>D\<close> computed on the series without its last price, when that is long enough.
  \<open>IsOversoldWithCrossover\<close> and \<open>IsOverboughtWithCrossover\<close> use this one flag unchanged,
  with \<open>K < 30\<close> and \<open>K > 70\<close> respectively.
\<close>

theorem stoch_crossover:
  assumes "0 < rsiPeriod" "0 < stochKPeriod" "0 < stochDPeriod"
  shows "let ks = percentK_trajectory prices rsiPeriod stochKPeriod;
             n = length ks - 1;
             cur = Calculate_stoch prices rsiPeriod stochKPeriod stochDPeriod;
             prev = Calculate_stoch (butlast prices) rsiPeriod stochKPeriod stochDPeriod
         in (Crossover cur \<longleftrightarrow>
               rsiPeriod + stochKPeriod + stochDPeriod \<le> length prices
               \<and> ks ! (n - 1) < percentD_at ks stochDPeriod (n - 1)
               \<and> ks ! n > percentD_at ks stochDPeriod n
               \<and> ks ! (n - 1) < 30)
            \<and> (rsiPeriod + stochKPeriod + stochDPeriod \<le> length prices \<longrightarrow>
                 K cur = ks ! n \<and> D cur = percentD_at ks stochDPeriod n)
            \<and> (rsiPeriod + stochKPeriod + stochDPeriod + 1 \<le> length prices \<longrightarrow>
                 K prev = ks ! (n - 1) \<and> D prev = percentD_at ks stochDPeriod (n - 1))
            \<and> IsOversoldWithCrossover prices rsiPeriod stochKPeriod stochDPeriod
                 = (K cur < 30 \<and> Crossover cur)
            \<and> IsOverboughtWithCrossover prices rsiPeriod stochKPeriod stochDPeriod
                 = (K cur > 70 \<and> Crossover cur)"
proof -
  let ?ks = "percentK_trajectory prices rsiPeriod stochKPeriod"
  let ?n = "length ?ks - 1"
  let ?cur = "Calculate_stoch prices rsiPeriod stochKPeriod stochDPeriod"
  let ?prev = "Calculate_stoch (butlast prices) rsiPeriod stochKPeriod stochDPeriod"
  have short: "\<not> Crossover ?cur"
    if "\<not> rsiPeriod + stochKPeriod + stochDPeriod \<le> length prices"
    using that by (simp add: Calculate_stoch_def StochasticRSIResult_zero_def)
  have long: "?cur = \<lparr>K = ?ks ! ?n, D = percentD_at ?ks stochDPeriod ?n,
                Crossover = (?ks ! (?n - 1) < percentD_at ?ks stochDPeriod (?n - 1)
                             \<and> ?ks ! ?n > percentD_at ?ks stochDPeriod ?n
                             \<and> ?ks ! (?n - 1) < 30)\<rparr>"
    if "rsiPeriod + stochKPeriod + stochDPeriod \<le> length prices"
    using Calculate_stoch_long [OF assms that] by (simp add: Let_def)
  have prev: "K ?prev = ?ks ! (?n - 1) \<and> D ?prev = percentD_at ?ks stochDPeriod (?n - 1)"
    if len: "rsiPeriod + stochKPeriod + stochDPeriod + 1 \<le> length prices"
  proof -
    let ?ks' = "percentK_trajectory (butlast prices) rsiPeriod stochKPeriod"
    from len have len': "rsiPeriod + stochKPeriod + stochDPeriod \<le> length (butlast prices)"
      by simp
    have ks': "?ks' = butlast ?ks"
      by (rule percentK_trajectory_butlast [OF assms(2)])
    have L: "length ?ks = length prices - rsiPeriod - (stochKPeriod - 1)"
      by (rule percentK_trajectory_length)
    with len assms have n: "length ?ks' - 1 = ?n - 1" "?n - 1 < length ?ks - 1"
      "?n - 1 + 1 \<le> length ?ks - 1"
      by (simp_all add: ks')
    have "percentD_at (butlast ?ks) stochDPeriod (?n - 1) = percentD_at ?ks stochDPeriod (?n - 1)"
      unfolding percentD_at_def using n(3) by (simp only: slice_butlast)
    moreover have "butlast ?ks ! (?n - 1) = ?ks ! (?n - 1)"
      using n(2) by (simp add: nth_butlast)
    ultimately show ?thesis
      using Calculate_stoch_long [OF assms len'] n(1) by (simp add: Let_def ks')
  qed
  show ?thesis
  proof (cases "rsiPeriod + stochKPeriod + stochDPeriod \<le> length prices")
    case True
    from long [OF True] have c: "Crossover ?cur =
         (?ks ! (?n - 1) < percentD_at ?ks stochDPeriod (?n - 1)
          \<and> ?ks ! ?n > percentD_at ?ks stochDPeriod ?n \<and> ?ks ! (?n - 1) < 30)"
      and k: "K ?cur = ?ks ! ?n" and d: "D ?cur = percentD_at ?ks stochDPeriod ?n"
      by simp_all
    show ?thesis
      unfolding Let_def IsOversoldWithCrossover_def IsOverboughtWithCrossover_def
      using True c k d prev by simp
  next
    case False
    show ?thesis
      unfolding Let_def IsOversoldWithCrossover_def IsOverboughtWithCrossover_def
      using False short [OF False] by simp
  qed
qed

theorem stoch_crossover_witness:
  "0 < (1::nat) \<and> 0 < (2::nat) \<and> 1 + 2 + 2 + 1 \<le> length [1, 2, 1, 3, 2, 5 :: real]
   \<and> Calculate_stoch [1, 2, 1, 3, 2, 5] 1 2 2 = \<lparr>K = 100, D = 50, Crossover = True\<rparr>
   \<and> K (Calculate_stoch (butlast [1, 2, 1, 3, 2, 5]) 1 2 2)
       = percentK_trajectory [1, 2, 1, 3, 2, 5] 1 2 ! 2
   \<and> IsOverboughtWithCrossover [1, 2, 1, 3, 2, 5] 1 2 2
   \<and> \<not> IsOversoldWithCrossover [1, 2, 1, 3, 2, 5] 1 2 2"
proof -
  have ev: "Calculate_stoch [1, 2, 1, 3, 2, 5] 1 2 2 = \<lparr>K = 100, D = 50, Crossover = True\<rparr>"
    by code_simp
  have len: "length (percentK_trajectory [1, 2, 1, 3, 2, 5] 1 2) = 4"
    by (simp add: percentK_trajectory_length)
  from stoch_crossover [of 1 2 2 "[1, 2, 1, 3, 2, 5]"] ev len show ?thesis
    by (simp add: Let_def)
qed


section \<open>Properties of the MACD duration checks\<close>

lemma slice_0: "slice xs 0 n = take n xs"
  by (simp add: slice_def)

lemma bearishLoop_run:
  "n \<le> length prices \<Longrightarrow> c < 6 \<Longrightarrow>
   bearishLoop prices f s sg (int n - 1) c
     = min 6 (c + length (takeWhile (bearishPrefix prices f s sg) (rev [max 2 s..<Suc n])))"
proof (induction n arbitrary: c)
  case 0
  then show ?case by (subst bearishLoop.simps) simp
next
  case (Suc n)
  show ?case
  proof (cases "n < 1")
    case True
    with Suc.prems show ?thesis by (subst bearishLoop.simps) simp
  next
    case False
    then have n1: "1 \<le> n" by simp
    have j: "int (Suc n) - 1 = int n" "int n - 1 = int n - 1" by simp_all
    have len: "length (slice prices 0 (nat (int n + 1))) = Suc n"
      using Suc.prems by (simp add: slice_0 nat_add_distrib)
    have tk: "slice prices 0 (nat (int n + 1)) = take (Suc n) prices"
      by (simp add: slice_0 nat_add_distrib)
    show ?thesis
    proof (cases "s \<le> Suc n")
      case short: False
      then have e1: "[max 2 s..<Suc (Suc n)] = []" "[max 2 s..<Suc n] = []"
        by (simp_all del: upt_Suc)
      have "bearishLoop prices f s sg (int (Suc n) - 1) c = bearishLoop prices f s sg (int n - 1) c"
        using Suc.prems n1 short len by (subst bearishLoop.simps) (simp add: Let_def)
      also have "\<dots> = min 6 (c + length (takeWhile (bearishPrefix prices f s sg) (rev [max 2 s..<Suc n])))"
        using Suc.prems by (intro Suc.IH) simp_all
      finally show ?thesis by (simp add: e1 del: upt_Suc)
    next
      case True
      with n1 have m: "max 2 s \<le> Suc n" by simp
      then have up: "rev [max 2 s..<Suc (Suc n)] = Suc n # rev [max 2 s..<Suc n]"
        by (simp add: upt_Suc_append del: upt_Suc)
      show ?thesis
      proof (cases "bearishPrefix prices f s sg (Suc n)")
        case bear: True
        have step: "bearishLoop prices f s sg (int (Suc n) - 1) c
                = bearishLoop prices f s sg (int n - 1) (c + 1)"
          using Suc.prems n1 True len bear
          by (subst bearishLoop.simps) (simp add: Let_def tk bearishPrefix_def)
        show ?thesis
        proof (cases "c + 1 < 6")
          case True
          have "bearishLoop prices f s sg (int n - 1) (c + 1)
                 = min 6 (c + 1 + length (takeWhile (bearishPrefix prices f s sg) (rev [max 2 s..<Suc n])))"
            using Suc.prems True by (intro Suc.IH) simp_all
          with step bear show ?thesis by (simp add: up del: upt_Suc)
        next
          case False
          with Suc.prems have c5: "c + 1 = 6" by simp
          have "bearishLoop prices f s sg (int n - 1) (c + 1) = c + 1"
            using c5 by (subst bearishLoop.simps) simp
          with step bear c5 show ?thesis by (simp add: up del: upt_Suc)
        qed
      next
        case nb: False
        have "bearishLoop prices f s sg (int (Suc n) - 1) c = c"
          using Suc.prems n1 True len nb
          by (subst bearishLoop.simps) (simp add: Let_def tk bearishPrefix_def)
        with nb Suc.prems show ?thesis by (simp add: up del: upt_Suc)
      qed
    qed
  qed
qed

lemma bullishLoop_run:
  "n \<le> length prices \<Longrightarrow> c < 6 \<Longrightarrow>
   bullishLoop prices f s sg (int n - 1) c
     = min 6 (c + length (takeWhile (bullishPrefix prices f s sg) (rev [max 2 s..<Suc n])))"
proof (induction n arbitrary: c)
  case 0
  then show ?case by (subst bullishLoop.simps) simp
next
  case (Suc n)
  show ?case
  proof (cases "n < 1")
    case True
    with Suc.prems show ?thesis by (subst bullishLoop.simps) simp
  next
    case False
    then have n1: "1 \<le> n" by simp
    have j: "int (Suc n) - 1 = int n" "int n - 1 = int n - 1" by simp_all
    have len: "length (slice prices 0 (nat (int n + 1))) = Suc n"
      using Suc.prems by (simp add: slice_0 nat_add_distrib)
    have tk: "slice prices 0 (nat (int n + 1)) = take (Suc n) prices"
      by (simp add: slice_0 nat_add_distrib)
    show ?thesis
    proof (cases "s \<le> Suc n")
      case short: False
      then have e1: "[max 2 s..<Suc (Suc n)] = []" "[max 2 s..<Suc n] = []"
        by (simp_all del: upt_Suc)
      have "bullishLoop prices f s sg (int (Suc n) - 1) c = bullishLoop prices f s sg (int n - 1) c"
        using Suc.prems n1 short len by (subst bullishLoop.simps) (simp add: Let_def)
      also have "\<dots> = min 6 (c + length (takeWhile (bullishPrefix prices f s sg) (rev [max 2 s..<Suc n])))"
        using Suc.prems by (intro Suc.IH) simp_all
      finally show ?thesis by (simp add: e1 del: upt_Suc)
    next
      case True
      with n1 have m: "max 2 s \<le> Suc n" by simp
      then have up: "rev [max 2 s..<Suc (Suc n)] = Suc n # rev [max 2 s..<Suc n]"
        by (simp add: upt_Suc_append del: upt_Suc)
      show ?thesis
      proof (cases "bullishPrefix prices f s sg (Suc n)")
        case bull: True
        have step: "bullishLoop prices f s sg (int (Suc n) - 1) c
                = bullishLoop prices f s sg (int n - 1) (c + 1)"
          using Suc.prems n1 True len bull
          by (subst bullishLoop.simps) (simp add: Let_def tk bullishPrefix_def)
        show ?thesis
        proof (cases "c + 1 < 6")
          case True
          have "bullishLoop prices f s sg (int n - 1) (c + 1)
                 = min 6 (c + 1 + length (takeWhile (bullishPrefix prices f s sg) (rev [max 2 s..<Suc n])))"
            using Suc.prems True by (intro Suc.IH) simp_all
          with step bull show ?thesis by (simp add: up del: upt_Suc)
        next
          case False
          with Suc.prems have c5: "c + 1 = 6" by simp
          have "bullishLoop prices f s sg (int n - 1) (c + 1) = c + 1"
            using c5 by (subst bullishLoop.simps) simp
          with step bull c5 show ?thesis by (simp add: up del: upt_Suc)
        qed
      next
        case nb: False
        have "bullishLoop prices f s sg (int (Suc n) - 1) c = c"
          using Suc.prems n1 True len nb
          by (subst bullishLoop.simps) (simp add: Let_def tk bullishPrefix_def)
        with nb Suc.prems show ?thesis by (simp add: up del: upt_Suc)
      qed
    qed
  qed
qed


text \<open>
  C4. On a series long enough for MACD, \<open>IsBearMarketAcceptable\<close> is true at once when
  the MACD of the whole series is above its signal; otherwise it is true iff the run of
  bearish prefixes, counted backward from the last bar up to the first bullish prefix and
  capped at 6, is at most 5. \<open>IsBullMarketAcceptable\<close> is the mirror image.
\<close>

theorem market_acceptable:
  assumes "0 < fastPeriod" "0 < slowPeriod" "0 < signalPeriod" "slowPeriod \<le> length prices"
  shows "IsBearMarketAcceptable prices fastPeriod slowPeriod signalPeriod
           = (if IsBullMarket prices fastPeriod slowPeriod signalPeriod then True
              else min 6 (bearishRun prices fastPeriod slowPeriod signalPeriod) \<le> 5)
         \<and> IsBullMarketAcceptable prices fastPeriod slowPeriod signalPeriod
           = (if MACD (Calculate_macd prices fastPeriod slowPeriod signalPeriod)
                   < Signal (Calculate_macd prices fastPeriod slowPeriod signalPeriod) then True
              else min 6 (bullishRun prices fastPeriod slowPeriod signalPeriod) \<le> 5)"
proof -
  have bear: "bearishLoop prices fastPeriod slowPeriod signalPeriod (int (length prices) - 1) 0
                = min 6 (bearishRun prices fastPeriod slowPeriod signalPeriod)"
    using bearishLoop_run [of "length prices" prices 0 fastPeriod slowPeriod signalPeriod]
    by (simp add: bearishRun_def)
  have bull: "bullishLoop prices fastPeriod slowPeriod signalPeriod (int (length prices) - 1) 0
                = min 6 (bullishRun prices fastPeriod slowPeriod signalPeriod)"
    using bullishLoop_run [of "length prices" prices 0 fastPeriod slowPeriod signalPeriod]
    by (simp add: bullishRun_def)
  show ?thesis
    unfolding IsBearMarketAcceptable_def IsBullMarketAcceptable_def IsBullMarket_def Let_def
      bear bull
    by simp
qed

theorem market_acceptable_witness:
  "0 < (1::nat) \<and> 0 < (2::nat)
   \<and> 2 \<le> length [1, 2, 9, 8, 7, 4 :: real]
   \<and> \<not> IsBullMarket [1, 2, 9, 8, 7, 4] 1 2 2
   \<and> bearishRun [1, 2, 9, 8, 7, 4] 1 2 2 = 3
   \<and> IsBearMarketAcceptable [1, 2, 9, 8, 7, 4] 1 2 2
   \<and> IsBullMarketAcceptable [1, 2, 9, 8, 7, 4] 1 2 2
   \<and> 2 \<le> length [9, 8, 7, 6, 5, 4, 3, 2, 1 :: real]
   \<and> \<not> IsBullMarket [9, 8, 7, 6, 5, 4, 3, 2, 1] 1 2 2
   \<and> bearishRun [9, 8, 7, 6, 5, 4, 3, 2, 1] 1 2 2 = 8
   \<and> \<not> IsBearMarketAcceptable [9, 8, 7, 6, 5, 4, 3, 2, 1] 1 2 2"
proof -
  have a: "\<not> IsBullMarket [1, 2, 9, 8, 7, 4] 1 2 2"
    by code_simp
  have b: "bearishRun [1, 2, 9, 8, 7, 4] 1 2 2 = 3"
    by code_simp
  have c: "MACD (Calculate_macd [1, 2, 9, 8, 7, 4] 1 2 2)
             < Signal (Calculate_macd [1, 2, 9, 8, 7, 4] 1 2 2)"
    by code_simp
  have a': "\<not> IsBullMarket [9, 8, 7, 6, 5, 4, 3, 2, 1] 1 2 2"
    by code_simp
  have b': "bearishRun [9, 8, 7, 6, 5, 4, 3, 2, 1] 1 2 2 = 8"
    by code_simp
  from market_acceptable [of 1 2 2 "[1, 2, 9, 8, 7, 4]"]
       market_acceptable [of 1 2 2 "[9, 8, 7, 6, 5, 4, 3, 2, 1]"] a b c a' b'
  show ?thesis
    by simp
qed


section \<open>Properties of the pattern detector\<close>

text \<open>
  C8. \<open>DetectAllPatterns\<close> tries Long2CandlestickReversal, Short2CandlestickReversal,
  LongPinbarReversal, ShortPinbarReversal in this order and returns the first whose
  predicate holds. In particular, a tail that satisfies a 2-candle predicate and a pinbar
  predicate gets the 2-candle variant, and a tail that satisfies none gets \<open>NoPattern\<close>.
\<close>

theorem DetectAllPatterns_priority:
  "DetectAllPatterns cs e20 e50 e100 e200 =
     (if DetectLong2CandlestickReversal cs e20 e50 e100 e200 then Long2CandlestickReversal
      else if DetectShort2CandlestickReversal cs e20 e50 e100 e200 then Short2CandlestickReversal
      else if DetectLongPinbarReversal cs e20 e50 e100 e200 then LongPinbarReversal
      else if DetectShortPinbarReversal cs e20 e50 e100 e200 then ShortPinbarReversal
      else NoPattern)
   \<and> ((DetectLong2CandlestickReversal cs e20 e50 e100 e200
         \<or> DetectShort2CandlestickReversal cs e20 e50 e100 e200)
        \<and> (DetectLongPinbarReversal cs e20 e50 e100 e200
            \<or> DetectShortPinbarReversal cs e20 e50 e100 e200)
       \<longrightarrow> DetectAllPatterns cs e20 e50 e100 e200 =
             (if DetectLong2CandlestickReversal cs e20 e50 e100 e200
              then Long2CandlestickReversal else Short2CandlestickReversal))
   \<and> (\<not> DetectLong2CandlestickReversal cs e20 e50 e100 e200
        \<and> \<not> DetectShort2CandlestickReversal cs e20 e50 e100 e200
        \<and> \<not> DetectLongPinbarReversal cs e20 e50 e100 e200
        \<and> \<not> DetectShortPinbarReversal cs e20 e50 e100 e200
       \<longrightarrow> DetectAllPatterns cs e20 e50 e100 e200 = NoPattern)"
  by (auto simp: DetectAllPatterns_def DetectLong2CandlestickReversal_def
        DetectShort2CandlestickReversal_def DetectLongPinbarReversal_def
        DetectShortPinbarReversal_def)

theorem DetectAllPatterns_priority_witness:
  "DetectLong2CandlestickReversal
     [\<lparr>Date = 1, Open = 99, High = 100, Low = 95, Close = 96, Volume = 0\<rparr>,
      \<lparr>Date = 2, Open = 100, High = 103, Low = 80, Close = 102, Volume = 0\<rparr>,
      \<lparr>Date = 3, Open = 104, High = 111, Low = 101, Close = 110, Volume = 0\<rparr>] 93 92 91 90
   \<and> DetectLongPinbarReversal
     [\<lparr>Date = 1, Open = 99, High = 100, Low = 95, Close = 96, Volume = 0\<rparr>,
      \<lparr>Date = 2, Open = 100, High = 103, Low = 80, Close = 102, Volume = 0\<rparr>,
      \<lparr>Date = 3, Open = 104, High = 111, Low = 101, Close = 110, Volume = 0\<rparr>] 93 92 91 90
   \<and> DetectAllPatterns
     [\<lparr>Date = 1, Open = 99, High = 100, Low = 95, Close = 96, Volume = 0\<rparr>,
      \<lparr>Date = 2, Open = 100, High = 103, Low = 80, Close = 102, Volume = 0\<rparr>,
      \<lparr>Date = 3, Open = 104, High = 111, Low = 101, Close = 110, Volume = 0\<rparr>] 93 92 91 90
     = Long2CandlestickReversal"
proof -
  let ?cs = "[\<lparr>Date = 1, Open = 99, High = 100, Low = 95, Close = 96, Volume = 0\<rparr>,
      \<lparr>Date = 2, Open = 100, High = 103, Low = 80, Close = 102, Volume = 0\<rparr>,
      \<lparr>Date = 3, Open = 104, High = 111, Low = 101, Close = 110, Volume = 0\<rparr>]"
  have two: "DetectLong2CandlestickReversal ?cs 93 92 91 90"
    by (simp add: DetectLong2CandlestickReversal_def isReversalBodyAboveSupport_def
          isTailPiercingSupport_def isBullishConfirmation_def getLowestEMA_def)
  have pin: "DetectLongPinbarReversal ?cs 93 92 91 90"
    by (simp add: DetectLongPinbarReversal_def isBullishPinbar_def fdiv_def abs_f_def
          min_f_def isBullishConfirmation_def getLowestEMA_def)
  from two pin DetectAllPatterns_priority [of ?cs 93 92 91 90] show ?thesis
    by simp
qed

text \<open>
  C10, as the code has it. For a candle whose High equals its Low the two ratios are
  divisions by zero. \<open>isBullishPinbar\<close> is then true exactly when Open equals Close and
  lies above Low (the body ratio is NaN, which is not above 0.3, and the wick ratio is
  \<open>+Inf\<close>), and \<open>isBearishPinbar\<close> exactly when Open equals Close and lies below High. So
  both are false for every such candle whose Open and Close lie within \<open>[Low, High]\<close>.
\<close>

theorem zero_range_pinbar:
  "High c = Low c \<Longrightarrow>
   (isBullishPinbar c \<longleftrightarrow> Open c = Close c \<and> Low c < Open c)
   \<and> (isBearishPinbar c \<longleftrightarrow> Open c = Close c \<and> Open c < High c)
   \<and> (Low c \<le> Open c \<and> Open c \<le> High c \<and> Low c \<le> Close c \<and> Close c \<le> High c
        \<longrightarrow> \<not> isBullishPinbar c \<and> \<not> isBearishPinbar c)"
  by (auto simp: isBullishPinbar_def isBearishPinbar_def fdiv_def abs_f_def min_f_def
        max_f_def Let_def)

theorem zero_range_pinbar_witness:
  "High \<lparr>Date = 1, Open = 5, High = 5, Low = 5, Close = 5, Volume = 0\<rparr>
     = Low \<lparr>Date = 1, Open = 5, High = 5, Low = 5, Close = 5, Volume = 0\<rparr>
   \<and> \<not> isBullishPinbar \<lparr>Date = 1, Open = 5, High = 5, Low = 5, Close = 5, Volume = 0\<rparr>
   \<and> \<not> isBearishPinbar \<lparr>Date = 1, Open = 5, High = 5, Low = 5, Close = 5, Volume = 0\<rparr>"
  using zero_range_pinbar [of "\<lparr>Date = 1, Open = 5, High = 5, Low = 5, Close = 5, Volume = 0\<rparr>"]
  by simp

text \<open>
  C10, as stated, fails: the candle with Open = Close = 10 and High = Low = 5 has zero
  range, \<open>isBullishPinbar\<close> holds for it, and a tail with it as the second-to-last candle is
  classified \<open>LongPinbarReversal\<close>.
\<close>

theorem zero_range_pinbar_counterexample:
  "High \<lparr>Date = 2, Open = 10, High = 5, Low = 5, Close = 10, Volume = 0\<rparr>
     = Low \<lparr>Date = 2, Open = 10, High = 5, Low = 5, Close = 10, Volume = 0\<rparr>
   \<and> isBullishPinbar \<lparr>Date = 2, Open = 10, High = 5, Low = 5, Close = 10, Volume = 0\<rparr>
   \<and> DetectAllPatterns
        [\<lparr>Date = 1, Open = 6, High = 7, Low = 4, Close = 5, Volume = 0\<rparr>,
         \<lparr>Date = 2, Open = 10, High = 5, Low = 5, Close = 10, Volume = 0\<rparr>,
         \<lparr>Date = 3, Open = 11, High = 13, Low = 10, Close = 12, Volume = 0\<rparr>] 7 7 7 7
       = LongPinbarReversal"
  by (simp add: DetectAllPatterns_def DetectLong2CandlestickReversal_def
        DetectShort2CandlestickReversal_def DetectLongPinbarReversal_def
        isReversalBodyAboveSupport_def isTailPiercingSupport_def
        isReversalBodyBelowResistance_def isBullishConfirmation_def
        getLowestEMA_def getHighestEMA_def
        isBullishPinbar_def fdiv_def abs_f_def min_f_def)

section \<open>Properties of the scenario validation and of the processor\<close>

lemma worker_length: "length (fst (worker fetch w items)) = length items"
  by (induction items arbitrary: w) (auto simp: split_beta Let_def)

text \<open>
  C2. For either scenario, a candle history with fewer than 200 closing prices gives
  the result with \<open>IsValid = False\<close>, every gate flag false, no pattern, and the
  insufficient-data message. It is not an error: \<open>processStock\<close> on such a history
  reports \<open>Success = True\<close> with no error and no valid setup.
\<close>

theorem validateSetup_insufficient_data:
  "length (extractClosingPrices candles) < 200 \<Longrightarrow>
   validateSetup symbol candles scenario =
     \<lparr>IsValid = False, EMATrendValid = False, StochasticValid = False, MACDValid = False,
      PatternValid = False, PatternType = NoPattern, Symbol = symbol,
      ValidationMessage = ''Insufficient data for analysis''\<rparr>
   \<and> (fetch (StockSymbol stock) 200 = Inr candles \<longrightarrow>
        Success (fst (processStock fetch now w stock))
        \<and> Error (fst (processStock fetch now w stock)) = None
        \<and> \<not> ResultIsValid (fst (processStock fetch now w stock))
        \<and> Message (fst (processStock fetch now w stock)) = ''No valid SAPAN setups detected'')"
  by (simp add: validateSetup_def ValidationResult_zero_def Let_def processStock_def
        ValidateLongSetup_def ValidateShortSetup_def ProcessingResult_zero_def)

theorem validateSetup_insufficient_data_witness:
  "length (extractClosingPrices [\<lparr>Date = 1, Open = 1, High = 2, Low = 1, Close = 2, Volume = 0\<rparr>]) < 200
   \<and> IsValid (validateSetup ''AAPL''
        [\<lparr>Date = 1, Open = 1, High = 2, Low = 1, Close = 2, Volume = 0\<rparr>] ShortScenario) = False
   \<and> ValidationMessage (validateSetup ''AAPL''
        [\<lparr>Date = 1, Open = 1, High = 2, Low = 1, Close = 2, Volume = 0\<rparr>] ShortScenario)
      = ''Insufficient data for analysis''
   \<and> Success (fst (processStock
        (\<lambda>symbol outputSize. Inr [\<lparr>Date = 1, Open = 1, High = 2, Low = 1, Close = 2, Volume = 0\<rparr>])
        7 \<lparr>watchListManager = NewWatchListManager, calls = []\<rparr>
        \<lparr>StockSymbol = ''AAPL'', Name = [], Sector = [], Industry = []\<rparr>))"
proof -
  have short: "length (extractClosingPrices
      [\<lparr>Date = 1, Open = 1, High = 2, Low = 1, Close = 2, Volume = 0\<rparr>]) < 200"
    by (simp add: extractClosingPrices_def)
  from short validateSetup_insufficient_data
    [OF short, of "''AAPL''" ShortScenario
       "\<lambda>symbol outputSize. Inr [\<lparr>Date = 1, Open = 1, High = 2, Low = 1, Close = 2, Volume = 0\<rparr>]"
       "\<lparr>StockSymbol = ''AAPL'', Name = [], Sector = [], Industry = []\<rparr>" 7
       "\<lparr>watchListManager = NewWatchListManager, calls = []\<rparr>"]
  show ?thesis by simp
qed

text \<open>
  C1. When the fetch succeeds, \<open>processStock\<close> validates Long first and validates Short
  only when Long is invalid; \<open>IsLongValid\<close> and \<open>IsShortValid\<close> are never both true; the
  symbol goes to the Long watch list when Long is valid, to the Short watch list only when
  Long is invalid and Short is valid, and at most one of the two watch lists changes.
\<close>

theorem processStock_scenarios_exclusive:
  assumes "fetch (StockSymbol stock) 200 = Inr candles"
  shows "\<not> (IsLongValid (fst (processStock fetch now w stock))
            \<and> IsShortValid (fst (processStock fetch now w stock)))
    \<and> IsLongValid (fst (processStock fetch now w stock))
        = IsValid (ValidateLongSetup (StockSymbol stock) candles)
    \<and> IsShortValid (fst (processStock fetch now w stock))
        = (\<not> IsValid (ValidateLongSetup (StockSymbol stock) candles)
           \<and> IsValid (ValidateShortSetup (StockSymbol stock) candles))
    \<and> calls (snd (processStock fetch now w stock))
        = calls w @ [CallFetchStockData (StockSymbol stock) 200,
                     CallValidateLongSetup (StockSymbol stock)]
            @ (if IsValid (ValidateLongSetup (StockSymbol stock) candles) then []
               else [CallValidateShortSetup (StockSymbol stock)])
    \<and> watchListManager (snd (processStock fetch now w stock))
        = (if IsValid (ValidateLongSetup (StockSymbol stock) candles)
           then AddToLongWatchList now (StockSymbol stock) (watchListManager w)
           else if IsValid (ValidateShortSetup (StockSymbol stock) candles)
           then AddToShortWatchList now (StockSymbol stock) (watchListManager w)
           else watchListManager w)
    \<and> (longWatchList (watchListManager (snd (processStock fetch now w stock)))
          = longWatchList (watchListManager w)
        \<or> shortWatchList (watchListManager (snd (processStock fetch now w stock)))
          = shortWatchList (watchListManager w))"
  using assms
  by (simp add: processStock_def Let_def AddToLongWatchList_def AddToShortWatchList_def)

theorem processStock_scenarios_exclusive_witness:
  "(\<lambda>symbol outputSize. Inr [])
       (StockSymbol \<lparr>StockSymbol = ''AAPL'', Name = [], Sector = [], Industry = []\<rparr>) (200::nat)
     = (Inr [] :: string + Candle list)
   \<and> \<not> (IsLongValid (fst (processStock (\<lambda>symbol outputSize. Inr []) 7
              \<lparr>watchListManager = NewWatchListManager, calls = []\<rparr>
              \<lparr>StockSymbol = ''AAPL'', Name = [], Sector = [], Industry = []\<rparr>))
        \<and> IsShortValid (fst (processStock (\<lambda>symbol outputSize. Inr []) 7
              \<lparr>watchListManager = NewWatchListManager, calls = []\<rparr>
              \<lparr>StockSymbol = ''AAPL'', Name = [], Sector = [], Industry = []\<rparr>)))
   \<and> calls (snd (processStock (\<lambda>symbol outputSize. Inr []) 7
              \<lparr>watchListManager = NewWatchListManager, calls = []\<rparr>
              \<lparr>StockSymbol = ''AAPL'', Name = [], Sector = [], Industry = []\<rparr>))
      = [CallFetchStockData ''AAPL'' 200, CallValidateLongSetup ''AAPL'',
         CallValidateShortSetup ''AAPL'']"
  using processStock_scenarios_exclusive
    [of "\<lambda>symbol outputSize. Inr []"
        "\<lparr>StockSymbol = ''AAPL'', Name = [], Sector = [], Industry = []\<rparr>" "[]" 7
        "\<lparr>watchListManager = NewWatchListManager, calls = []\<rparr>"]
  by (simp add: ValidateLongSetup_def validateSetup_def extractClosingPrices_def
        ValidationResult_zero_def Let_def)

text \<open>
  C9. When the fetch returns an error, \<open>processStock\<close> returns the one failure result
  carrying the error, with \<open>Success\<close> and \<open>IsValid\<close> false; its only call is the one fetch
  (no validation, no second fetch); both watch lists are as before; and the worker goes on
  to the remaining stocks, sending one result per stock.
\<close>

theorem processStock_fetch_failure:
  assumes "fetch (StockSymbol stock) 200 = Inl err"
  shows "processStock fetch now w stock =
           (\<lparr>ResultSymbol = StockSymbol stock, Success = False, Error = Some err,
             ResultIsValid = False, IsLongValid = False, IsShortValid = False,
             Message = [], Processed = True\<rparr>,
            w\<lparr>calls := calls w @ [CallFetchStockData (StockSymbol stock) 200]\<rparr>)
    \<and> watchListManager (snd (processStock fetch now w stock)) = watchListManager w
    \<and> fst (worker fetch w ((stock, now) # rest))
        = fst (processStock fetch now w stock)
          # fst (worker fetch
                  (w\<lparr>calls := calls w @ [CallFetchStockData (StockSymbol stock) 200]\<rparr>) rest)
    \<and> length (fst (worker fetch w ((stock, now) # rest))) = Suc (length rest)"
  using assms
  by (simp add: processStock_def Let_def ProcessingResult_zero_def split_beta worker_length)

theorem processStock_fetch_failure_witness:
  "(\<lambda>symbol outputSize. Inl ''API rate limit'')
       (StockSymbol \<lparr>StockSymbol = ''AAPL'', Name = [], Sector = [], Industry = []\<rparr>) (200::nat)
     = (Inl ''API rate limit'' :: string + Candle list)
   \<and> Error (fst (processStock (\<lambda>symbol outputSize. Inl ''API rate limit'') 7
              \<lparr>watchListManager = NewWatchListManager, calls = []\<rparr>
              \<lparr>StockSymbol = ''AAPL'', Name = [], Sector = [], Industry = []\<rparr>))
      = Some ''API rate limit''
   \<and> snd (processStock (\<lambda>symbol outputSize. Inl ''API rate limit'') 7
              \<lparr>watchListManager = NewWatchListManager, calls = []\<rparr>
              \<lparr>StockSymbol = ''AAPL'', Name = [], Sector = [], Industry = []\<rparr>)
      = \<lparr>watchListManager = NewWatchListManager, calls = [CallFetchStockData ''AAPL'' 200]\<rparr>"
  using processStock_fetch_failure
    [of "\<lambda>symbol outputSize. Inl ''API rate limit''"
        "\<lparr>StockSymbol = ''AAPL'', Name = [], Sector = [], Industry = []\<rparr>"
        "''API rate limit''" 7
        "\<lparr>watchListManager = NewWatchListManager, calls = []\<rparr>" "[]"]
  by simp

end
